theory Spec2Isabelle
  imports Complex_Main "HOL-Library.AList" "HOL-Library.Char_ord" "HOL-Library.List_Lexorder"
    "HOL-Library.Multiset"
begin

section \<open>Python strings\<close>

text \<open>
  A Python \<open>str\<close> is modelled as a \<open>string\<close>, one \<open>char\<close> per code point; the model
  therefore covers the code points below 256. \<open>is_space\<close> is \<open>str.isspace\<close> on one
  character in that range: TAB, LF, VT, FF, CR, FS, GS, RS, US, SPACE, NEL and NBSP.
\<close>

definition is_space :: "char \<Rightarrow> bool" where
  "is_space c = (of_char c \<in> set [9, 10, 11, 12, 13, 28, 29, 30, 31, 32, 133, 160 :: nat])"

text \<open>
  \<open>message.split()\<close> with no separator: runs of whitespace separate the words, and no
  empty word is produced at the start, at the end or anywhere else.
\<close>

function py_split :: "string \<Rightarrow> string list" where
  "py_split [] = []"
| "py_split (c # cs) =
     (if is_space c then py_split cs
      else (c # takeWhile (\<lambda>x. \<not> is_space x) cs)
             # py_split (dropWhile (\<lambda>x. \<not> is_space x) cs))"
  by pat_completeness auto
termination
  by (relation "measure length") (auto simp: length_dropWhile_le less_Suc_eq_le)

text \<open>\<open>sep.join(xs)\<close>.\<close>

fun join :: "string \<Rightarrow> string list \<Rightarrow> string" where
  "join sep [] = []"
| "join sep [x] = x"
| "join sep (x # y # ys) = x @ sep @ join sep (y # ys)"

definition newline :: string where
  "newline = [CHR 0x0A]"

text \<open>\<open>s.strip()\<close> and \<open>s.lower()\<close> (on code points below 256).\<close>

definition strip :: "string \<Rightarrow> string" where
  "strip s = rev (dropWhile is_space (rev (dropWhile is_space s)))"

definition lower_char :: "char \<Rightarrow> char" where
  "lower_char c =
     (let n = of_char c :: nat in
      if (65 \<le> n \<and> n \<le> 90) \<or> (192 \<le> n \<and> n \<le> 222 \<and> n \<noteq> 215)
      then char_of (n + 32) else c)"

definition lower :: "string \<Rightarrow> string" where
  "lower s = map lower_char s"

text \<open>Format specifications \<open>:<w\<close> and \<open>:>w\<close> on a string.\<close>

definition ljust :: "nat \<Rightarrow> string \<Rightarrow> string" where
  "ljust w s = s @ replicate (w - length s) CHR '' ''"

definition rjust :: "nat \<Rightarrow> string \<Rightarrow> string" where
  "rjust w s = replicate (w - length s) CHR '' '' @ s"

text \<open>\<open>str(n)\<close> for a non-negative integer.\<close>

definition digit_char :: "nat \<Rightarrow> char" where
  "digit_char d = char_of (48 + d)"

fun str_nat :: "nat \<Rightarrow> string" where
  "str_nat n = (if n < 10 then [digit_char n] else str_nat (n div 10) @ [digit_char (n mod 10)])"

declare str_nat.simps [simp del]

section \<open>Exceptions and values\<close>

text \<open>
  The exception classes that \<open>run_command\<close> names in its \<open>except\<close> clauses, the two
  built-in ones that the code can raise without catching (\<open>IndexError\<close>, \<open>TypeError\<close>),
  and one constructor for every other class. The classes of the module \<open>commands\<close> are
  not in the source file; they are taken as pairwise unrelated and as unrelated to
  \<open>ValueError\<close> and \<open>KeyError\<close>. An exception carries the text \<open>str(e)\<close>.
\<close>

datatype exn =
    ValueError string
  | KeyError string
  | IndexError
  | TypeError
  | ValueCommandException string
  | AccountCommandException string
  | UnauthorizedCommandException string
  | ProcessCommandException string
  | OtherException string

text \<open>
  The values that the coercion functions of the registry produce, and the identity of a
  caller (an \<open>AccountId\<close> or a \<open>str\<close>).
\<close>

datatype ('id, 'lvl) val =
    VStr string
  | VInt int
  | VNone
  | VFraction rat
  | VAccountId 'id
  | VAuthorization 'lvl

text \<open>
  A handler returns a string or, for \<open>shoot\<close>, a dictionary with the keys
  \<open>response\<close> and \<open>to_be_muted\<close>.
\<close>

datatype ('id, 'lvl) reply =
    Text string
  | Muting string "('id, 'lvl) val"

type_synonym ('id, 'lvl) result = "exn + ('id, 'lvl) reply"

section \<open>Commands\<close>

text \<open>The coercion functions that appear in the \<open>args\<close> dictionaries.\<close>

datatype coercer =
    Coerce_Fraction
  | Coerce_parse_account_id
  | Coerce_str
  | Coerce_int
  | Coerce_limit
  | Coerce_level

text \<open>The handler functions of the module, by name.\<close>

datatype func =
    f_name | f_transfer | f_adm_transfer | f_open_account | f_set_public | f_leader_board
  | f_adm_open_account | f_freeze_account | f_unfreeze_account | f_balance | f_full_balance
  | f_money_supply | f_add_public_key | f_list_accounts | f_print_money | f_remove_funds
  | f_create_recurring_transfer | f_admin_create_recurring_transfer | f_proxy | f_proxy_dsa
  | f_request_alias | f_add_alias | f_admin_add_proxy | f_admin_remove_proxy
  | f_delete_account | f_add_tax_bracket | f_remove_tax_bracket | f_force_tax
  | f_toggle_auto_tax | f_force_ticks | f_shoot_account | f_set_gun_price | f_set_vest_price
  | f_buy_gun | f_buy_vest | f_gun_balance | f_vest_balance | f_buy_farm
  | f_set_farm_type_cost | f_set_farm_type_duration | f_set_farm_type_returns
  | f_farm_balance | f_authorize | f_help

text \<open>
  The number of parameters in each handler's \<open>def\<close>. No handler has a default value, a
  starred parameter or a keyword-only parameter, so a call with any other number of
  positional arguments raises \<open>TypeError\<close>.
\<close>

fun positional :: "func \<Rightarrow> nat" where
  "positional f_name = 3"
| "positional f_transfer = 5"
| "positional f_adm_transfer = 6"
| "positional f_open_account = 3"
| "positional f_set_public = 3"
| "positional f_leader_board = 4"
| "positional f_adm_open_account = 4"
| "positional f_freeze_account = 4"
| "positional f_unfreeze_account = 4"
| "positional f_balance = 3"
| "positional f_full_balance = 3"
| "positional f_money_supply = 3"
| "positional f_add_public_key = 4"
| "positional f_list_accounts = 3"
| "positional f_print_money = 5"
| "positional f_remove_funds = 5"
| "positional f_create_recurring_transfer = 6"
| "positional f_admin_create_recurring_transfer = 7"
| "positional f_proxy = 5"
| "positional f_proxy_dsa = 6"
| "positional f_request_alias = 4"
| "positional f_add_alias = 5"
| "positional f_admin_add_proxy = 5"
| "positional f_admin_remove_proxy = 5"
| "positional f_delete_account = 4"
| "positional f_add_tax_bracket = 7"
| "positional f_remove_tax_bracket = 4"
| "positional f_force_tax = 3"
| "positional f_toggle_auto_tax = 3"
| "positional f_force_ticks = 4"
| "positional f_shoot_account = 4"
| "positional f_set_gun_price = 4"
| "positional f_set_vest_price = 4"
| "positional f_buy_gun = 3"
| "positional f_buy_vest = 3"
| "positional f_gun_balance = 3"
| "positional f_vest_balance = 3"
| "positional f_buy_farm = 4"
| "positional f_set_farm_type_cost = 5"
| "positional f_set_farm_type_duration = 5"
| "positional f_set_farm_type_returns = 5"
| "positional f_farm_balance = 3"
| "positional f_authorize = 5"
| "positional f_help = 3"

text \<open>
  Class \<open>_Command\<close>. The dictionary \<open>args\<close> maps a parameter name to the pair of its
  coercion function and its description; it is kept as a list in insertion order.
\<close>

record command =
  name :: string
  args :: "(string \<times> coercer \<times> string) list"
  func :: func
  description :: string

definition usage :: "command \<Rightarrow> string" where
  "usage self = join newline
     [''Usage: '' @ name self @ '' '' @ join '' '' (map fst (args self)),
      description self,
      ''Options: '',
      join newline (map (\<lambda>(arg, meta). ''    '' @ arg @ '' -- '' @ snd meta) (args self))]"

section \<open>The registry\<close>

text \<open>
  The module-level dictionary \<open>_commands\<close> holds references to \<open>_Command\<close> objects.
  \<open>objects\<close> is the store of the objects allocated so far (an object's address is its
  position) and \<open>table\<close> is the dictionary, from a name to an address, in insertion
  order. \<open>lookup\<close> is \<open>_commands[key]\<close>, with \<open>None\<close> for \<open>KeyError\<close>; a table entry
  always holds the address of an allocated object (lemma \<open>load_wf\<close> below).
\<close>

record registry =
  objects :: "command list"
  table :: "(string \<times> nat) list"

definition empty_registry :: registry where
  "empty_registry = \<lparr>objects = [], table = []\<rparr>"

definition lookup :: "registry \<Rightarrow> string \<Rightarrow> command option" where
  "lookup R key =
     (case map_of (table R) key of
        None \<Rightarrow> None
      | Some a \<Rightarrow> if a < length (objects R) then Some (objects R ! a) else None)"

text \<open>
  \<open>_commands.update({name: _Command(...)})\<close>: a key that is present keeps its place in
  the dictionary, a new key goes to the end.
\<close>

definition add_command ::
  "string \<Rightarrow> (string \<times> coercer \<times> string) list \<Rightarrow> func \<Rightarrow> string \<Rightarrow> registry \<Rightarrow> registry" where
  "add_command nm ar f d R =
     \<lparr>objects = objects R @ [\<lparr>name = nm, args = ar, func = f, description = d\<rparr>],
      table = AList.update nm (length (objects R)) (table R)\<rparr>"

text \<open>
  \<open>_Command.copy\<close> builds a new object from the four attributes of \<open>self\<close>; \<open>alias\<close>
  stores the copy at a fresh address, with its name replaced.
\<close>

definition copy :: "command \<Rightarrow> command" where
  "copy self = \<lparr>name = name self, args = args self, func = func self,
                description = description self\<rparr>"

definition "alias" :: "string \<Rightarrow> string \<Rightarrow> registry \<Rightarrow> exn + registry" where
  "alias nm al R =
     (case lookup R nm of
        None \<Rightarrow> Inl (KeyError nm)
      | Some c \<Rightarrow>
          let cmd = (copy c)\<lparr>name := al\<rparr>
          in Inr \<lparr>objects = objects R @ [cmd],
                  table = AList.update al (length (objects R)) (table R)\<rparr>)"

text \<open>The assignment \<open>obj.description = d\<close> to the object at address \<open>a\<close>.\<close>

definition set_description :: "nat \<Rightarrow> string \<Rightarrow> registry \<Rightarrow> registry" where
  "set_description a d R =
     (if a < length (objects R)
      then R\<lparr>objects := (objects R)[a := (objects R ! a)\<lparr>description := d\<rparr>]\<rparr>
      else R)"

text \<open>
  The module's calls of \<open>_add_command\<close> and \<open>_alias\<close>, in the order of the file, and
  their execution. The last statement of the module rebuilds the dictionary with its
  items sorted by name.
\<close>

datatype decl =
    Add string "(string \<times> coercer \<times> string) list" func string
  | Alias string string

fun load :: "decl list \<Rightarrow> registry \<Rightarrow> exn + registry" where
  "load [] R = Inr R"
| "load (Add nm ar f d # ds) R = load ds (add_command nm ar f d R)"
| "load (Alias nm al # ds) R =
     (case alias nm al R of Inl e \<Rightarrow> Inl e | Inr R' \<Rightarrow> load ds R')"

definition script :: "decl list" where
  "script =
    [Add ''name''
       []
       f_name
       ''Produces your real or hypothetical account ID'',
     Add ''transfer''
       [(''amount'', Coerce_Fraction, ''Amount to transfer''),
        (''destination'', Coerce_parse_account_id, ''Beneficiary to transfer to'')]
       f_transfer
       (''Transfers an amount of money from your account to a beneficiary'' @ [CHR 0x27] @ ''s''),
     Add ''admin-transfer''
       [(''amount'', Coerce_Fraction, ''Amount to transfer''),
        (''source'', Coerce_parse_account_id, ''Account from which the amount is sent''),
        (''destination'', Coerce_parse_account_id, ''Beneficiary to transfer to'')]
       f_adm_transfer
       (''Transfers an amount of money from a source account to a beneficiary'' @ [CHR 0x27] @ ''s''),
     Add ''open''
       []
       f_open_account
       ''Opens a new account'',
     Add ''toggle-public''
       []
       f_set_public
       ''toggle whether or not your account is public'',
     Add ''leader-board''
       [(''limit'', Coerce_limit, ''the maximum number of accounts to display -1 for no limit'')]
       f_leader_board
       ''view a list of all public accounts sorted by balance'',
     Alias ''leader-board'' ''lb'',
     Add ''admin-open''
       [(''account'', Coerce_parse_account_id, ''Account to open'')]
       f_adm_open_account
       ''Open a new account for someone else'',
     Add ''admin-freeze''
       [(''account'', Coerce_parse_account_id, ''Account to freeze'')]
       f_freeze_account
       ''Freeze an account'',
     Add ''admin-unfreeze''
       [(''account'', Coerce_parse_account_id, ''Account to unfreeze'')]
       f_unfreeze_account
       ''Unfreeze an account'',
     Add ''balance''
       []
       f_balance
       ''Print account balance'',
     Alias ''balance'' ''bal'',
     Add ''full-balance''
       []
       f_full_balance
       ''Print un-rounded balance'',
     Alias ''full-balance'' ''full-bal'',
     Add ''money-supply''
       []
       f_money_supply
       ''Print the total money supply'',
     Add ''add-public-key''
       [(''key'', Coerce_str, ''Key to use'')]
       f_add_public_key
       ''Adds a public key to your account'',
     Add ''list''
       []
       f_list_accounts
       ''List all accounts'',
     Alias ''list'' ''ls'',
     Add ''print-money''
       [(''amount'', Coerce_Fraction, ''Amount to print''),
        (''account'', Coerce_parse_account_id, ''Account to print to'')]
       f_print_money
       ''Print amount of money to account'',
     Add ''remove-funds''
       [(''amount'', Coerce_Fraction, ''Amount to delete''),
        (''account'', Coerce_parse_account_id, ''Account to print to'')]
       f_remove_funds
       ''Deletes fund from an account'',
     Add ''create-recurring-transfer''
       [(''amount'', Coerce_Fraction, ''Amount to transfer''),
        (''destination'', Coerce_parse_account_id, ''Beneficiary to transfer to''),
        (''tick_count'', Coerce_int, ''Interval to transfer by, in ticks'')]
       f_create_recurring_transfer
       ''Create a transfer which reccurs according to an interval'',
     Add ''admin-create-recurring-transfer''
       [(''amount'', Coerce_Fraction, ''Amount to transfer''),
        (''source'', Coerce_Fraction, ''Source to transfer from''),
        (''destination'', Coerce_parse_account_id, ''Beneficiary to transfer to''),
        (''tick_count'', Coerce_int, ''Interval to transfer by, in ticks'')]
       f_create_recurring_transfer
       ''Create a transfer from someone else which reccurs according to an interval'',
     Add ''proxy''
       [(''account'', Coerce_parse_account_id, ''Account to proxy''),
        (''command'', Coerce_str, ''Command to run'')]
       f_proxy
       ''Proxy another account'',
     Add ''proxy-dsa''
       [(''account'', Coerce_parse_account_id, ''Account to proxy''),
        (''signature'', Coerce_str, ''ECDSA signature of command to run''),
        (''command'', Coerce_str, ''Command to run'')]
       f_proxy_dsa
       ''Proxy another account using ECDSA verification'',
     Add ''request-alias''
       [(''account'', Coerce_parse_account_id, ''Account to alias'')]
       f_request_alias
       ''Request an alias code'',
     Add ''add-alias''
       [(''account'', Coerce_parse_account_id, ''Account to alias''),
        (''request_code'', Coerce_str, ''Code generated on the other account'')]
       f_add_alias
       ''Add another account as an alias'',
     Add ''admin-add-proxy''
       [(''proxy'', Coerce_parse_account_id, ''Account that will be able to act as a proxy for `account`''),
        (''account'', Coerce_parse_account_id, ''Account that `proxy` will be able to access'')]
       f_admin_add_proxy
       ''Let an account proxy another account'',
     Add ''admin-remove-proxy''
       [(''proxy'', Coerce_parse_account_id, ''Account that can currently act as a proxy for `account`''),
        (''account'', Coerce_parse_account_id, ''Account that `proxy` will no longer be able to access'')]
       f_admin_remove_proxy
       ''Unlet an account proxy another account'',
     Add ''admin-delete-account''
       [(''account'', Coerce_parse_account_id, ''Account to delete'')]
       f_delete_account
       ''Delete an account'',
     Add ''add-tax-bracket''
       [(''start'', Coerce_Fraction, ''Lower bound of the tax bracket''),
        (''end'', Coerce_Fraction, ''Upper bound of the tax bracker (-1 for infinity)''),
        (''rate'', Coerce_Fraction, ''Tax rate''),
        (''name'', Coerce_str, ''Name of the tax bracket'')]
       f_add_tax_bracket
       ''Add a tax bracket'',
     Add ''remove-tax-bracket''
       [(''name'', Coerce_str, ''Name of the bracket to delete'')]
       f_remove_tax_bracket
       ''Removes a tax bracker'',
     Add ''force-tax''
       []
       f_force_tax
       ''Manually apply tax brakcets'',
     Add ''auto-tax''
       []
       f_toggle_auto_tax
       ''Toggle automatic taxation'',
     Add ''force-ticks''
       [(''ticks'', Coerce_int, ''Amount of ticks to force'')]
       f_force_ticks
       ''Forcibly run ticks'',
     Add ''shoot''
       [(''victim'', Coerce_parse_account_id, ''person to shoot'')]
       f_shoot_account
       ''shoots Account'',
     Add ''set-gun-price''
       [(''price'', Coerce_Fraction, ''price for new guns'')]
       f_set_gun_price
       ''Sets the price of a gun'',
     Add ''set-vest-price''
       [(''price'', Coerce_Fraction, ''price for new vests'')]
       f_set_vest_price
       ''sets the price of a vest'',
     Add ''buy-gun''
       []
       f_buy_gun
       ''buys a gun'',
     Add ''buy-vest''
       []
       f_buy_vest
       ''buys a vest'',
     Add ''gun-balance''
       []
       f_gun_balance
       ''displays how many guns you own'',
     Alias ''gun-balance'' ''gun-bal'',
     Add ''vest-balance''
       []
       f_vest_balance
       ''displays whether or not you have a vest'',
     Alias ''vest-balance'' ''vest-bal'',
     Add ''buy-farm''
       [(''farm-type'', Coerce_str, ''Type of the farm you want to buy'')]
       f_buy_farm
       ''Buys a farm'',
     Add ''set-farm-type-cost''
       [(''farm-type'', Coerce_str, ''Type of the farm you want to change the cost of''),
        (''new-cost'', Coerce_Fraction, ''The new cost of the farm'')]
       f_set_farm_type_cost
       ''Sets the cost of a type of farm'',
     Add ''set-farm-type-duration''
       [(''farm-type'', Coerce_str, ''Type of farm you want to change the duration of''),
        (''new-duration'', Coerce_int, ''New duration for that Farm Type'')]
       f_set_farm_type_duration
       ''Sets the duration of a given farm type'',
     Add ''set-farm-type-returns''
       [(''farm-type'', Coerce_str, ''Type of the farm you want to change the returns of''),
        (''new-returns'', Coerce_Fraction, ''The new returns'')]
       f_set_farm_type_returns
       ''Sets the returns per day for a given farm type'',
     Add ''farm-balance''
       []
       f_farm_balance
       ''displays your farms'',
     Add ''authorize''
       [(''account'', Coerce_parse_account_id, ''Account to authorize''),
        (''level'', Coerce_level, ''Authorization level'')]
       f_authorize
       ''Authorize a command'',
     Alias ''authorize'' ''authorise'',
     Add ''help''
       []
       f_help
       ''List all commands'']"

definition sort_items :: "registry \<Rightarrow> registry" where
  "sort_items R = R\<lparr>table := sort_key fst (table R)\<rparr>"

definition commands_dict :: registry where
  "commands_dict =
     (case load script empty_registry of Inl e \<Rightarrow> empty_registry | Inr R \<Rightarrow> sort_items R)"

section \<open>The service boundary\<close>

text \<open>
  The modules \<open>commands\<close> and \<open>accounting\<close>, the built-in \<open>repr\<close> and the class
  \<open>Fraction\<close> are not part of the source file. They are parameters of the model:
  \<^item> \<open>parse_account_id\<close> and \<open>Fraction\<close> applied to one word;
  \<^item> \<open>Authorization\<close>: the members of the enumeration with their names, in definition order;
  \<^item> \<open>repr\<close> of a string, which the message of \<open>int\<close>'s \<open>ValueError\<close> contains;
  \<^item> \<open>verify_proxy\<close> and \<open>list_public_accounts\<close> of \<open>commands\<close>, on the server state \<open>'s\<close>;
  \<^item> the accessors that \<open>_leader_board\<close> formats: \<open>acc.get_balance()\<close>,
    \<open>server.get_account_ids(acc)\<close>, \<open>acc.get_authorization().name\<close>, \<open>str\<close> of an
    account identifier, and \<open>_rounded\<close>, which goes through floating point;
  \<^item> \<open>handler\<close>: what a handler does when it is called with the right number of
    arguments, for every handler whose body is not written out below.
\<close>

record ('s, 'id, 'lvl, 'acc) service =
  parse_account_id :: "string \<Rightarrow> exn + 'id"
  Fraction :: "string \<Rightarrow> exn + rat"
  Authorization :: "(string \<times> 'lvl) list"
  repr :: "string \<Rightarrow> string"
  verify_proxy ::
    "('id, 'lvl) val \<Rightarrow> ('id, 'lvl) val \<Rightarrow> ('id, 'lvl) val \<Rightarrow> string \<Rightarrow> 's \<Rightarrow> (exn + bool) \<times> 's"
  list_public_accounts :: "('id, 'lvl) val \<Rightarrow> 's \<Rightarrow> (exn + 'acc list) \<times> 's"
  get_balance :: "'acc \<Rightarrow> rat"
  get_account_ids :: "'s \<Rightarrow> 'acc \<Rightarrow> 'id list"
  authorization_name :: "'acc \<Rightarrow> string"
  str_account_id :: "'id \<Rightarrow> string"
  rounded :: "rat \<Rightarrow> string"
  handler ::
    "func \<Rightarrow> ('id, 'lvl) val \<Rightarrow> ('id, 'lvl) val list \<Rightarrow> string \<Rightarrow> 's \<Rightarrow> ('id, 'lvl) result \<times> 's"

section \<open>Coercion\<close>

text \<open>
  \<open>int(x)\<close> on a string: surrounding whitespace is dropped, one sign is allowed, then
  decimal digits with single underscores between digits. (The interpreter's optional
  limit on the number of digits is not modelled.)
\<close>

definition is_digit :: "char \<Rightarrow> bool" where
  "is_digit c = (48 \<le> (of_char c :: nat) \<and> (of_char c :: nat) \<le> 57)"

fun int_literal :: "bool \<Rightarrow> nat \<Rightarrow> string \<Rightarrow> nat option" where
  "int_literal prev acc [] = (if prev then Some acc else None)"
| "int_literal prev acc (c # cs) =
     (if is_digit c then int_literal True (10 * acc + (of_char c - 48)) cs
      else if c = CHR ''_'' \<and> prev then int_literal False acc cs
      else None)"

definition py_int :: "(string \<Rightarrow> string) \<Rightarrow> string \<Rightarrow> exn + int" where
  "py_int rp x =
     (let t = strip x;
          parsed =
            (case t of
               [] \<Rightarrow> None
             | c # cs \<Rightarrow>
                 if c = CHR ''-'' then map_option (\<lambda>n. - int n) (int_literal False 0 cs)
                 else if c = CHR ''+'' then map_option int (int_literal False 0 cs)
                 else map_option int (int_literal False 0 t))
      in case parsed of
           None \<Rightarrow> Inl (ValueError (''invalid literal for int() with base 10: '' @ rp x))
         | Some i \<Rightarrow> Inr i)"

text \<open>
  The first component of an \<open>args\<close> entry, applied to one word. \<open>Coerce_limit\<close> is
  \<open>lambda x: None if int(x) < 0 else int(x)\<close>; \<open>Coerce_level\<close> is
  \<open>lambda s: {a.name.lower(): a for a in Authorization}[s.lower()]\<close>, where a later
  member replaces an earlier one with the same lower-cased name.
\<close>

fun coerce ::
  "('s, 'id, 'lvl, 'acc) service \<Rightarrow> coercer \<Rightarrow> string \<Rightarrow> exn + ('id, 'lvl) val" where
  "coerce E Coerce_Fraction x =
     (case Fraction E x of Inl e \<Rightarrow> Inl e | Inr q \<Rightarrow> Inr (VFraction q))"
| "coerce E Coerce_parse_account_id x =
     (case parse_account_id E x of Inl e \<Rightarrow> Inl e | Inr a \<Rightarrow> Inr (VAccountId a))"
| "coerce E Coerce_str x = Inr (VStr x)"
| "coerce E Coerce_int x =
     (case py_int (repr E) x of Inl e \<Rightarrow> Inl e | Inr i \<Rightarrow> Inr (VInt i))"
| "coerce E Coerce_limit x =
     (case py_int (repr E) x of
        Inl e \<Rightarrow> Inl e
      | Inr i \<Rightarrow> if i < 0 then Inr VNone
                else (case py_int (repr E) x of Inl e \<Rightarrow> Inl e | Inr j \<Rightarrow> Inr (VInt j)))"
| "coerce E Coerce_level x =
     (case map_of (rev (map (\<lambda>(n, a). (lower n, a)) (Authorization E))) (lower x) of
        None \<Rightarrow> Inl (KeyError (lower x))
      | Some a \<Rightarrow> Inr (VAuthorization a))"

text \<open>
  \<open>list(map(lambda arg, input: arg[0](input), cmd.args.values(), split[1:]))\<close>: the
  coercion functions are applied from left to right to as many words as there are, and
  the first exception ends the evaluation.
\<close>

fun coerce_all ::
  "('s, 'id, 'lvl, 'acc) service \<Rightarrow> (coercer \<times> string) list \<Rightarrow> exn + ('id, 'lvl) val list" where
  "coerce_all E [] = Inr []"
| "coerce_all E ((k, x) # rest) =
     (case coerce E k x of
        Inl e \<Rightarrow> Inl e
      | Inr v \<Rightarrow> (case coerce_all E rest of Inl e \<Rightarrow> Inl e | Inr vs \<Rightarrow> Inr (v # vs)))"

definition coercers :: "command \<Rightarrow> coercer list" where
  "coercers cmd = map (\<lambda>(arg, meta). fst meta) (args cmd)"

definition parse_command_args ::
  "('s, 'id, 'lvl, 'acc) service \<Rightarrow> command \<Rightarrow> string
     \<Rightarrow> exn + (('id, 'lvl) val list \<times> string)" where
  "parse_command_args E cmd message =
     (case py_split message of
        [] \<Rightarrow> Inl IndexError
      | w # ws \<Rightarrow>
          if name cmd \<noteq> w then Inl (ValueError ''Command message does not match command'')
          else
            (case coerce_all E (zip (coercers cmd) ws) of
               Inl e \<Rightarrow> Inl e
             | Inr vs \<Rightarrow>
                 if length vs < length (args cmd) then Inl (ValueError ''Not enough arguments'')
                 else Inr (vs, join '' '' (drop (1 + length (args cmd)) (w # ws)))))"

section \<open>Words of a line\<close>

definition token :: "string \<Rightarrow> bool" where
  "token t = (t \<noteq> [] \<and> (\<forall>c \<in> set t. \<not> is_space c))"

lemma dropWhile_all: "\<forall>x \<in> set xs. P x \<Longrightarrow> dropWhile P xs = []"
  by simp

lemma takeWhile_all: "\<forall>x \<in> set xs. P x \<Longrightarrow> takeWhile P xs = xs"
  by simp

lemma py_split_tokens: "t \<in> set (py_split m) \<Longrightarrow> token t"
proof (induction m arbitrary: t rule: py_split.induct)
  case 1
  then show ?case by simp
next
  case (2 c cs)
  show ?case
  proof (cases "is_space c")
    case True
    with 2 show ?thesis by simp
  next
    case False
    with 2(3) have "t = c # takeWhile (\<lambda>x. \<not> is_space x) cs
        \<or> t \<in> set (py_split (dropWhile (\<lambda>x. \<not> is_space x) cs))"
      by simp
    then show ?thesis
    proof
      assume "t = c # takeWhile (\<lambda>x. \<not> is_space x) cs"
      with False show ?thesis unfolding token_def by (auto dest: set_takeWhileD)
    next
      assume "t \<in> set (py_split (dropWhile (\<lambda>x. \<not> is_space x) cs))"
      with 2(2) False show ?thesis by blast
    qed
  qed
qed

lemma py_split_append_space:
  "is_space c \<Longrightarrow> py_split (a @ c # b) = py_split a @ py_split b"
proof (induction a rule: py_split.induct)
  case 1
  then show ?case by simp
next
  case (2 d ds)
  let ?P = "\<lambda>x. \<not> is_space x"
  show ?case
  proof (cases "is_space d")
    case True
    with 2 show ?thesis by simp
  next
    case False
    show ?thesis
    proof (cases "\<forall>x \<in> set ds. ?P x")
      case True
      with False 2(3) show ?thesis
        by (simp add: takeWhile_append2 dropWhile_append2 dropWhile_all takeWhile_all)
    next
      case nall: False
      then have "takeWhile ?P (ds @ c # b) = takeWhile ?P ds"
        and "dropWhile ?P (ds @ c # b) = dropWhile ?P ds @ c # b"
        by (auto simp: takeWhile_append1 dropWhile_append1)
      with False 2(2)[OF False 2(3)] show ?thesis by simp
    qed
  qed
qed

lemma py_split_token: "token t \<Longrightarrow> py_split t = [t]"
  by (cases t) (simp_all add: token_def dropWhile_all takeWhile_all)

lemma py_split_join: "\<forall>t \<in> set ts. token t \<Longrightarrow> py_split (join '' '' ts) = ts"
proof (induction ts rule: induct_list012)
  case (3 x y ys)
  have "py_split (x @ CHR '' '' # join '' '' (y # ys))
      = py_split x @ py_split (join '' '' (y # ys))"
    by (rule py_split_append_space) (simp add: is_space_def)
  with 3 show ?case by (simp add: py_split_token)
qed (simp_all add: py_split_token)

lemma py_split_nested: "py_split (c @ '' '' @ r) = py_split c @ py_split r"
  using py_split_append_space [of "CHR '' ''" c r] by (simp add: is_space_def)

section \<open>Dispatch\<close>

text \<open>
  What an execution does besides computing its result is recorded as a list of events:
  every entry into \<open>run_command\<close>, with the identity and the line it was given, and
  every handler whose body starts to run.
\<close>

datatype ('id, 'lvl) event =
    Dispatched "('id, 'lvl) val" string
  | Called func

text \<open>
  The clause \<open>except KeyError\<close> evaluates \<open>message.split()[0]\<close> again.
\<close>

definition no_such_command :: "string \<Rightarrow> ('id, 'lvl) result" where
  "no_such_command message =
     (case py_split message of
        [] \<Rightarrow> Inl IndexError
      | w # ws \<Rightarrow> Inr (Text (''No such command: '' @ w)))"

text \<open>
  The \<open>except\<close> clauses of \<open>run_command\<close>, in their order; an exception of any other
  class leaves \<open>run_command\<close>.
\<close>

fun except_clauses :: "command \<Rightarrow> string \<Rightarrow> exn \<Rightarrow> ('id, 'lvl) result" where
  "except_clauses command message (ValueError e) =
     Inr (Text (join newline [''Error: '' @ e, usage command]))"
| "except_clauses command message (ValueCommandException e) =
     Inr (Text (join newline [''Invalid argument: '' @ e, [], usage command]))"
| "except_clauses command message (AccountCommandException e) =
     Inr (Text (''Invalid account: '' @ e))"
| "except_clauses command message (UnauthorizedCommandException e) =
     Inr (Text ''Unauthorized command'')"
| "except_clauses command message (ProcessCommandException e) =
     Inr (Text ''Something went wrong. Please try again later'')"
| "except_clauses command message (KeyError e) = no_such_command message"
| "except_clauses command message IndexError = Inl IndexError"
| "except_clauses command message TypeError = Inl TypeError"
| "except_clauses command message (OtherException e) = Inl (OtherException e)"

subsection \<open>The leader board\<close>

text \<open>
  \<open>sorted(xs, key=k, reverse=True)\<close>: the sort is stable, and with \<open>reverse=True\<close>
  elements with equal keys keep their original order.
\<close>

definition py_sorted_reverse :: "('a \<Rightarrow> 'k::linorder) \<Rightarrow> 'a list \<Rightarrow> 'a list" where
  "py_sorted_reverse k xs = rev (sort_key k (rev xs))"

text \<open>The condition \<open>limit is None or i < limit\<close>.\<close>

definition admitted :: "int option \<Rightarrow> nat \<Rightarrow> bool" where
  "admitted limit i = (case limit of None \<Rightarrow> True | Some k \<Rightarrow> int i < k)"

definition listed ::
  "('s, 'id, 'lvl, 'acc) service \<Rightarrow> int option \<Rightarrow> 'acc list \<Rightarrow> (nat \<times> 'acc) list" where
  "listed E limit accs =
     filter (\<lambda>(i, acc). admitted limit i)
       (enumerate 0 (py_sorted_reverse (get_balance E) accs))"

definition row :: "('s, 'id, 'lvl, 'acc) service \<Rightarrow> 's \<Rightarrow> nat \<Rightarrow> 'acc \<Rightarrow> string" where
  "row E server i acc =
     ljust 3 (str_nat (i + 1)) @ '' | ''
       @ ljust 28 (join '':'' (map (str_account_id E) (get_account_ids E server acc)))
     @ '' | '' @ ljust 9 (lower (authorization_name E acc))
     @ '' | '' @ rjust 8 (rounded E (get_balance E acc))"

definition leader_board ::
  "('s, 'id, 'lvl, 'acc) service \<Rightarrow> ('id, 'lvl) val \<Rightarrow> int option \<Rightarrow> string \<Rightarrow> 's
     \<Rightarrow> ('id, 'lvl) result \<times> 's" where
  "leader_board E author limit rest server =
     (case list_public_accounts E author server of
        (Inl e, s') \<Rightarrow> (Inl e, s')
      | (Inr accs, s') \<Rightarrow>
          (Inr (Text (join newline (map (\<lambda>(i, acc). row E s' i acc) (listed E limit accs)))),
           s'))"

text \<open>
  The number of words that a value can contribute to a nested command line; it bounds
  the recursion of \<open>run_command\<close> through the proxy handlers.
\<close>

fun weight :: "('id, 'lvl) val \<Rightarrow> nat" where
  "weight (VStr x) = max 1 (length (py_split x))"
| "weight v = 1"

lemma weight_pos: "Suc 0 \<le> weight v"
  by (cases v) simp_all

lemma zip_take_right: "zip xs (take (length xs) ys) = zip xs ys"
proof (induction xs arbitrary: ys)
  case (Cons x xs)
  then show ?case by (cases ys) simp_all
qed simp

lemma py_split_nested_Cons: "py_split (c @ CHR '' '' # r) = py_split c @ py_split r"
  by (rule py_split_append_space) (simp add: is_space_def)

lemma coerce_weight: "token x \<Longrightarrow> coerce E k x = Inr v \<Longrightarrow> weight v = 1"
  by (cases k) (auto simp: py_split_token split: sum.splits if_splits option.splits)

lemma coerce_all_weight:
  "\<forall>x \<in> set (map snd kxs). token x \<Longrightarrow> coerce_all E kxs = Inr vs
     \<Longrightarrow> sum_list (map weight vs) = length kxs \<and> length vs = length kxs"
proof (induction kxs arbitrary: vs)
  case Nil
  then show ?case by simp
next
  case (Cons kx kxs)
  obtain k x where kx: "kx = (k, x)" by (cases kx)
  from Cons.prems(2) kx obtain v vs' where
    v: "coerce E k x = Inr v" and vs': "coerce_all E kxs = Inr vs'" and vs: "vs = v # vs'"
    by (auto split: sum.splits)
  from Cons.prems(1) kx have "token x" and "\<forall>x \<in> set (map snd kxs). token x" by simp_all
  with Cons.IH [OF _ vs'] coerce_weight [OF _ v] vs show ?case by simp
qed

lemma parse_command_args_words:
  assumes "parse_command_args E c m = Inr (vs, rest)"
  shows "\<exists>ws. py_split m = name c # ws \<and> length (args c) \<le> length ws
           \<and> coerce_all E (zip (coercers c) (take (length (args c)) ws)) = Inr vs
           \<and> length vs = length (args c)
           \<and> sum_list (map weight vs) = length (args c)
           \<and> rest = join '' '' (drop (length (args c)) ws)
           \<and> py_split rest = drop (length (args c)) ws"
proof -
  from assms obtain w ws where split: "py_split m = w # ws"
    by (auto simp: parse_command_args_def split: list.splits)
  with assms have w: "w = name c"
    and co: "coerce_all E (zip (coercers c) ws) = Inr vs"
    and len: "\<not> length vs < length (args c)"
    and rest: "rest = join '' '' (drop (length (args c)) ws)"
    by (auto simp: parse_command_args_def split: if_splits sum.splits)
  have tok: "\<forall>t \<in> set ws. token t"
    using py_split_tokens [of _ m] split by simp
  then have "\<forall>x \<in> set (map snd (zip (coercers c) ws)). token x"
    by (auto dest: set_zip_rightD)
  from coerce_all_weight [OF this co]
  have sum: "sum_list (map weight vs) = length (zip (coercers c) ws)"
    and lvs: "length vs = length (zip (coercers c) ws)" by simp_all
  have lk: "length (coercers c) = length (args c)" by (simp add: coercers_def)
  from lvs len lk have le: "length (args c) \<le> length ws" by simp
  with lk have z: "zip (coercers c) (take (length (args c)) ws) = zip (coercers c) ws"
    by (metis zip_take_right)
  from tok have "\<forall>t \<in> set (drop (length (args c)) ws). token t"
    by (auto dest: in_set_dropD)
  then have "py_split rest = drop (length (args c)) ws"
    unfolding rest by (rule py_split_join)
  with split w co le z sum lvs lk rest show ?thesis by simp
qed

text \<open>
  \<open>run_command\<close> and the call \<open>command.func(author, *args, rest, server)\<close>. The
  bodies of \<open>_proxy\<close>, \<open>_proxy_dsa\<close> and \<open>_leader_board\<close> are written out, for the
  argument values that the registered coercion functions produce; every other handler,
  and every other shape of arguments, is left to the parameter \<open>handler\<close>. The result is
  the value returned or the exception raised, the server state, and the events.
\<close>

function run_command ::
  "('s, 'id, 'lvl, 'acc) service \<Rightarrow> registry \<Rightarrow> ('id, 'lvl) val \<Rightarrow> string \<Rightarrow> 's
     \<Rightarrow> ('id, 'lvl) result \<times> 's \<times> ('id, 'lvl) event list"
and call_func ::
  "('s, 'id, 'lvl, 'acc) service \<Rightarrow> registry \<Rightarrow> func \<Rightarrow> ('id, 'lvl) val
     \<Rightarrow> ('id, 'lvl) val list \<Rightarrow> string \<Rightarrow> 's
     \<Rightarrow> ('id, 'lvl) result \<times> 's \<times> ('id, 'lvl) event list"
where
  "run_command E R author message server =
     (case py_split message of
        [] \<Rightarrow> (Inl IndexError, server, [Dispatched author message])
      | w # ws \<Rightarrow>
          (case lookup R w of
             None \<Rightarrow> (no_such_command message, server, [Dispatched author message])
           | Some command \<Rightarrow>
               (case parse_command_args E command message of
                  Inl e \<Rightarrow>
                    (except_clauses command message e, server, [Dispatched author message])
                | Inr (vs, rest) \<Rightarrow>
                    (case call_func E R (func command) author vs rest server of
                       (Inl e, s', evs) \<Rightarrow>
                         (except_clauses command message e, s',
                          Dispatched author message # evs)
                     | (Inr r, s', evs) \<Rightarrow>
                         (Inr r, s', Dispatched author message # evs)))))"
| "call_func E R f author vs rest server =
     (if positional f \<noteq> length vs + 3 then (Inl TypeError, server, [])
      else if f = f_proxy then
        (case vs of
           [account, VStr command] \<Rightarrow>
             (case verify_proxy E author account VNone (command @ '' '' @ rest) server of
                (Inl e, s') \<Rightarrow> (Inl e, s', [Called f])
              | (Inr ok, s') \<Rightarrow>
                  if ok then
                    (case run_command E R account (command @ '' '' @ rest) s' of
                       (r, s'', evs) \<Rightarrow> (r, s'', Called f # evs))
                  else (Inr (Text ''Unauthorized proxy''), s', [Called f]))
         | _ \<Rightarrow> (case handler E f author vs rest server of (r, s') \<Rightarrow> (r, s', [Called f])))
      else if f = f_proxy_dsa then
        (case vs of
           [account, signature, VStr command] \<Rightarrow>
             (case verify_proxy E author account signature (command @ '' '' @ rest) server of
                (Inl e, s') \<Rightarrow> (Inl e, s', [Called f])
              | (Inr ok, s') \<Rightarrow>
                  if ok then
                    (case run_command E R account (command @ '' '' @ rest) s' of
                       (r, s'', evs) \<Rightarrow> (r, s'', Called f # evs))
                  else (Inr (Text ''Unauthorized proxy''), s', [Called f]))
         | _ \<Rightarrow> (case handler E f author vs rest server of (r, s') \<Rightarrow> (r, s', [Called f])))
      else if f = f_leader_board then
        (case vs of
           [VNone] \<Rightarrow>
             (case leader_board E author None rest server of (r, s') \<Rightarrow> (r, s', [Called f]))
         | [VInt k] \<Rightarrow>
             (case leader_board E author (Some k) rest server of (r, s') \<Rightarrow> (r, s', [Called f]))
         | _ \<Rightarrow> (case handler E f author vs rest server of (r, s') \<Rightarrow> (r, s', [Called f])))
      else (case handler E f author vs rest server of (r, s') \<Rightarrow> (r, s', [Called f])))"
  by pat_completeness auto
termination
  apply (relation "measure (\<lambda>x. case x of
           Inl (E, R, author, message, server) \<Rightarrow> 2 * length (py_split message) + 1
         | Inr (E, R, f, author, vs, rest, server) \<Rightarrow>
             2 * (sum_list (map weight vs) + length (py_split rest)))")
    apply simp
   apply (auto dest!: parse_command_args_words)[1]
   apply (simp_all add: py_split_nested_Cons)
  subgoal for E f author vs rest server account
    using weight_pos [of account] by arith
  subgoal for E f author vs rest server account x22 signature
    using weight_pos [of account] weight_pos [of signature] by arith
  done

declare run_command.simps [simp del] call_func.simps [simp del]


section \<open>Invariants of the registry\<close>

text \<open>
  In a registry built by \<open>add_command\<close> and \<open>alias\<close>, every key of the dictionary
  occurs once and holds the address of an allocated object whose \<open>name\<close> is that key.
\<close>

definition wf_registry :: "registry \<Rightarrow> bool" where
  "wf_registry R =
     (distinct (map fst (table R))
      \<and> (\<forall>k a. (k, a) \<in> set (table R)
            \<longrightarrow> a < length (objects R) \<and> name (objects R ! a) = k))"

lemma wf_empty: "wf_registry empty_registry"
  by (simp add: wf_registry_def empty_registry_def)

lemma set_updateD:
  "(k', v') \<in> set (AList.update k v al) \<Longrightarrow> (k', v') = (k, v) \<or> (k', v') \<in> set al"
  by (induction al) (auto split: if_splits)

lemma wf_add_command: "wf_registry R \<Longrightarrow> wf_registry (add_command nm ar f d R)"
  unfolding wf_registry_def add_command_def
  by (auto simp: distinct_update nth_append dest!: set_updateD)

lemma wf_alias: "wf_registry R \<Longrightarrow> alias nm al R = Inr R' \<Longrightarrow> wf_registry R'"
  unfolding wf_registry_def alias_def
  by (fastforce simp: distinct_update nth_append copy_def Let_def less_Suc_eq
      split: option.splits dest!: set_updateD)

lemma wf_load: "wf_registry R \<Longrightarrow> load ds R = Inr R' \<Longrightarrow> wf_registry R'"
proof (induction ds R rule: load.induct)
  case (1 R)
  then show ?case by simp
next
  case (2 nm ar f d ds R)
  then show ?case by (simp add: wf_add_command)
next
  case (3 nm al ds R)
  then show ?case by (auto split: sum.splits dest: wf_alias)
qed

lemma wf_lookup_name: "wf_registry R \<Longrightarrow> lookup R k = Some c \<Longrightarrow> name c = k"
  unfolding wf_registry_def lookup_def
  by (auto split: option.splits if_splits dest!: map_of_SomeD)

lemma map_of_sort_key:
  assumes "distinct (map fst xs)"
  shows "map_of (sort_key fst xs) = map_of xs"
proof (rule map_of_inject_set [THEN iffD2])
  show "distinct (map fst (sort_key fst xs))"
    using assms by (metis distinct_map distinct_sort set_sort inj_on_def) 
  show "distinct (map fst xs)" by fact
  show "set (sort_key fst xs) = set xs" by simp
qed

lemma lookup_sort_items: "distinct (map fst (table R)) \<Longrightarrow> lookup (sort_items R) k = lookup R k"
  unfolding lookup_def sort_items_def by (auto simp: map_of_sort_key split: option.splits)

lemma wf_sort_items: "wf_registry R \<Longrightarrow> wf_registry (sort_items R)"
  unfolding wf_registry_def sort_items_def
  by (auto simp: distinct_map inj_on_def)



text \<open>
  Sorting the items does not change what a key maps to, so a lookup in \<open>commands_dict\<close>
  can be computed on the registry as loaded.
\<close>

definition loaded_lookup :: "string \<Rightarrow> command option" where
  "loaded_lookup k = (case load script empty_registry of Inl e \<Rightarrow> None | Inr R \<Rightarrow> lookup R k)"

lemma lookup_commands_dict: "lookup commands_dict k = loaded_lookup k"
proof (cases "load script empty_registry")
  case (Inl e)
  then show ?thesis
    by (simp add: commands_dict_def loaded_lookup_def lookup_def empty_registry_def)
next
  case (Inr R)
  with wf_load [OF wf_empty Inr] show ?thesis
    by (simp add: commands_dict_def loaded_lookup_def lookup_sort_items wf_registry_def)
qed

lemma lookup_proxy:
  "loaded_lookup ''proxy'' =
     Some \<lparr>name = ''proxy'',
           args = [(''account'', Coerce_parse_account_id, ''Account to proxy''),
                   (''command'', Coerce_str, ''Command to run'')],
           func = f_proxy, description = ''Proxy another account''\<rparr>"
  by code_simp

lemma lookup_proxy_dsa:
  "loaded_lookup ''proxy-dsa'' =
     Some \<lparr>name = ''proxy-dsa'',
           args = [(''account'', Coerce_parse_account_id, ''Account to proxy''),
                   (''signature'', Coerce_str, ''ECDSA signature of command to run''),
                   (''command'', Coerce_str, ''Command to run'')],
           func = f_proxy_dsa,
           description = ''Proxy another account using ECDSA verification''\<rparr>"
  by code_simp

lemma lookup_leader_board:
  "loaded_lookup ''leader-board'' =
     Some \<lparr>name = ''leader-board'',
           args = [(''limit'', Coerce_limit,
                    ''the maximum number of accounts to display -1 for no limit'')],
           func = f_leader_board,
           description = ''view a list of all public accounts sorted by balance''\<rparr>"
  by code_simp

lemma lookup_authorize:
  "loaded_lookup ''authorize'' =
     Some \<lparr>name = ''authorize'',
           args = [(''account'', Coerce_parse_account_id, ''Account to authorize''),
                   (''level'', Coerce_level, ''Authorization level'')],
           func = f_authorize, description = ''Authorize a command''\<rparr>"
  by code_simp

lemma lookup_admin_create_recurring_transfer:
  "loaded_lookup ''admin-create-recurring-transfer'' =
     Some \<lparr>name = ''admin-create-recurring-transfer'',
           args = [(''amount'', Coerce_Fraction, ''Amount to transfer''),
                   (''source'', Coerce_Fraction, ''Source to transfer from''),
                   (''destination'', Coerce_parse_account_id, ''Beneficiary to transfer to''),
                   (''tick_count'', Coerce_int, ''Interval to transfer by, in ticks'')],
           func = f_create_recurring_transfer,
           description =
             ''Create a transfer from someone else which reccurs according to an interval''\<rparr>"
  by code_simp

lemma lookup_transfer:
  "loaded_lookup ''transfer'' =
     Some \<lparr>name = ''transfer'',
           args = [(''amount'', Coerce_Fraction, ''Amount to transfer''),
                   (''destination'', Coerce_parse_account_id, ''Beneficiary to transfer to'')],
           func = f_transfer,
           description =
             ''Transfers an amount of money from your account to a beneficiary''
               @ [CHR 0x27] @ ''s''\<rparr>"
  by code_simp

lemma lookup_help:
  "loaded_lookup ''help'' =
     Some \<lparr>name = ''help'', args = [], func = f_help, description = ''List all commands''\<rparr>"
  by code_simp

lemma wf_commands_dict: "wf_registry commands_dict"
proof (cases "load script empty_registry")
  case (Inl e)
  then show ?thesis by (simp add: commands_dict_def wf_empty)
next
  case (Inr R)
  with wf_load [OF wf_empty Inr] show ?thesis
    by (simp add: commands_dict_def wf_sort_items)
qed

section \<open>A small service, for evaluation\<close>

text \<open>
  A service on which the model can be run: the server state counts the calls of the
  service, an account identifier is the word itself, \<open>Fraction\<close> accepts the integer
  literals, a proxy is accepted from the caller \<open>owner\<close> or with the signature \<open>valid\<close>,
  and there are three public accounts.
\<close>

definition demo :: "(nat, string, nat, string \<times> rat) service" where
  "demo =
     \<lparr>parse_account_id = (\<lambda>x. Inr x),
      Fraction = (\<lambda>x. case py_int (\<lambda>s. s) x of
                          Inl e \<Rightarrow> Inl (ValueError (''Invalid literal for Fraction: '' @ x))
                        | Inr i \<Rightarrow> Inr (of_int i)),
      Authorization = [(''CITIZEN'', 0), (''OFFICER'', 1), (''ADMIN'', 2)],
      repr = (\<lambda>s. [CHR 0x27] @ s @ [CHR 0x27]),
      verify_proxy = (\<lambda>author account signature line n.
                        (Inr (author = VStr ''owner'' \<or> signature = VStr ''valid''), Suc n)),
      list_public_accounts = (\<lambda>author n. (Inr [(''ann'', 5), (''bob'', 7), (''cy'', 5)], Suc n)),
      get_balance = snd,
      get_account_ids = (\<lambda>n acc. [fst acc]),
      authorization_name = (\<lambda>acc. ''CITIZEN''),
      str_account_id = (\<lambda>a. a),
      rounded = (\<lambda>q. if q = 5 then ''5.0'' else if q = 7 then ''7.0'' else ''0.0''),
      handler = (\<lambda>f author vs rest n. (Inr (Text ''done''), Suc n))\<rparr>"


section \<open>Properties of dispatch\<close>

lemma run_command_found:
  assumes "py_split message = w # ws" and "lookup R w = Some c"
  shows "run_command E R author message server =
     (case parse_command_args E c message of
        Inl e \<Rightarrow> (except_clauses c message e, server, [Dispatched author message])
      | Inr (vs, rest) \<Rightarrow>
          (case call_func E R (func c) author vs rest server of
             (Inl e, s', evs) \<Rightarrow> (except_clauses c message e, s', Dispatched author message # evs)
           | (Inr r, s', evs) \<Rightarrow> (Inr r, s', Dispatched author message # evs)))"
  using assms by (subst run_command.simps) simp

lemma parse_command_args_words_eq:
  assumes "py_split message = name c # ws"
  shows "parse_command_args E c message =
     (case coerce_all E (zip (coercers c) ws) of
        Inl e \<Rightarrow> Inl e
      | Inr vs \<Rightarrow>
          if length vs < length (args c) then Inl (ValueError ''Not enough arguments'')
          else Inr (vs, join '' '' (drop (length (args c)) ws)))"
  using assms by (auto simp: parse_command_args_def split: sum.splits)

lemma except_clauses_idem:
  "except_clauses c m e0 = Inl e \<Longrightarrow> except_clauses c' m' e = Inl e"
  by (cases e0) (auto simp: no_such_command_def split: list.splits)

lemma run_command_raises:
  assumes "run_command E R author message server = (Inl e, s', evs)"
  shows "except_clauses c m e = Inl e"
proof (cases "py_split message")
  case Nil
  with assms show ?thesis by (subst (asm) run_command.simps) auto
next
  case (Cons w ws)
  show ?thesis
  proof (cases "lookup R w")
    case None
    with Cons assms show ?thesis
      by (subst (asm) run_command.simps) (auto simp: no_such_command_def)
  next
    case (Some cmd)
    from assms show ?thesis
      unfolding run_command_found [OF Cons Some]
      by (auto split: sum.splits prod.splits dest: except_clauses_idem)
  qed
qed

lemma rethrow_run_command:
  "(case run_command E R a m s of
      (Inl e, s', evs) \<Rightarrow> (except_clauses c m' e, s', f evs)
    | (Inr r, s', evs) \<Rightarrow> (Inr r, s', f evs))
   = (case run_command E R a m s of (r, s', evs) \<Rightarrow> (r, s', f evs))"
proof -
  obtain r s' evs where res: "run_command E R a m s = (r, s', evs)"
    by (cases "run_command E R a m s")
  show ?thesis
  proof (cases r)
    case (Inl e)
    with res run_command_raises [of E R a m s e s' evs c m'] show ?thesis by simp
  next
    case (Inr x)
    with res show ?thesis by simp
  qed
qed

text \<open>
  Claim C4 says that a line with no words (the empty line, or a line of whitespace only)
  is answered with the reply \<open>No such command:\<close> and an empty name. In the code,
  \<open>message.split()[0]\<close> raises \<open>IndexError\<close> on such a line, which no \<open>except\<close> clause of
  \<open>run_command\<close> catches: the call raises and produces no reply.
\<close>

theorem run_command_no_words:
  "run_command E R author [] server = (Inl IndexError, server, [Dispatched author []])
   \<and> run_command E R author ''   '' server = (Inl IndexError, server, [Dispatched author ''   ''])"
  by (simp add: run_command.simps is_space_def)

lemma call_proxy:
  "call_func E R f_proxy author [account, VStr c] rest server =
     (case verify_proxy E author account VNone (c @ '' '' @ rest) server of
        (Inl e, s') \<Rightarrow> (Inl e, s', [Called f_proxy])
      | (Inr ok, s') \<Rightarrow>
          if ok then
            (case run_command E R account (c @ '' '' @ rest) s' of
               (r, s'', evs) \<Rightarrow> (r, s'', Called f_proxy # evs))
          else (Inr (Text ''Unauthorized proxy''), s', [Called f_proxy]))"
  by (subst call_func.simps) simp

lemma call_proxy_dsa:
  "call_func E R f_proxy_dsa author [account, sg, VStr c] rest server =
     (case verify_proxy E author account sg (c @ '' '' @ rest) server of
        (Inl e, s') \<Rightarrow> (Inl e, s', [Called f_proxy_dsa])
      | (Inr ok, s') \<Rightarrow>
          if ok then
            (case run_command E R account (c @ '' '' @ rest) s' of
               (r, s'', evs) \<Rightarrow> (r, s'', Called f_proxy_dsa # evs))
          else (Inr (Text ''Unauthorized proxy''), s', [Called f_proxy_dsa]))"
  by (subst call_func.simps) simp

lemma parse_proxy:
  assumes "py_split message = ''proxy'' # a # c # others" and "parse_account_id E a = Inr acct"
  shows "parse_command_args E
     \<lparr>name = ''proxy'',
           args = [(''account'', Coerce_parse_account_id, ''Account to proxy''),
                   (''command'', Coerce_str, ''Command to run'')],
           func = f_proxy, description = ''Proxy another account''\<rparr> message
    = Inr ([VAccountId acct, VStr c], join '' '' others)"
  using assms by (simp add: parse_command_args_def coercers_def)

lemma parse_proxy_dsa:
  assumes "py_split message = ''proxy-dsa'' # a # sg # c # others"
    and "parse_account_id E a = Inr acct"
  shows "parse_command_args E
      \<lparr>name = ''proxy-dsa'',
           args = [(''account'', Coerce_parse_account_id, ''Account to proxy''),
                   (''signature'', Coerce_str, ''ECDSA signature of command to run''),
                   (''command'', Coerce_str, ''Command to run'')],
           func = f_proxy_dsa,
           description = ''Proxy another account using ECDSA verification''\<rparr> message
    = Inr ([VAccountId acct, VStr sg, VStr c], join '' '' others)"
  using assms by (simp add: parse_command_args_def coercers_def)

text \<open>
  Claim C1: when \<open>verify_proxy\<close> returns false, a \<open>proxy\<close> or \<open>proxy-dsa\<close> line is
  answered with exactly \<open>Unauthorized proxy\<close>, and the nested command line is never
  dispatched: the only events are the dispatch of the line itself and the call of the
  proxy handler, and the server is left in the state in which \<open>verify_proxy\<close> left it.
\<close>

theorem unauthorized_proxy_not_dispatched:
  "(py_split message = ''proxy'' # a # c # others
      \<and> parse_account_id E a = Inr acct
      \<and> verify_proxy E author (VAccountId acct) VNone (c @ '' '' @ join '' '' others) server
          = (Inr False, s')
    \<longrightarrow> run_command E commands_dict author message server
          = (Inr (Text ''Unauthorized proxy''), s', [Dispatched author message, Called f_proxy]))
   \<and> (py_split message = ''proxy-dsa'' # a # sg # c # others
      \<and> parse_account_id E a = Inr acct
      \<and> verify_proxy E author (VAccountId acct) (VStr sg) (c @ '' '' @ join '' '' others) server
          = (Inr False, s')
    \<longrightarrow> run_command E commands_dict author message server
          = (Inr (Text ''Unauthorized proxy''), s',
             [Dispatched author message, Called f_proxy_dsa]))"
proof (intro conjI impI; elim conjE)
  assume w: "py_split message = ''proxy'' # a # c # others"
    and a: "parse_account_id E a = Inr acct"
    and v: "verify_proxy E author (VAccountId acct) VNone (c @ '' '' @ join '' '' others) server
          = (Inr False, s')"
  have l: "lookup commands_dict ''proxy'' = Some \<lparr>name = ''proxy'',
           args = [(''account'', Coerce_parse_account_id, ''Account to proxy''),
                   (''command'', Coerce_str, ''Command to run'')],
           func = f_proxy, description = ''Proxy another account''\<rparr>"
    by (simp only: lookup_commands_dict lookup_proxy)
  show "run_command E commands_dict author message server
          = (Inr (Text ''Unauthorized proxy''), s', [Dispatched author message, Called f_proxy])"
    unfolding run_command_found [OF w l] parse_proxy [OF w a]
    using v by (simp add: call_proxy)
next
  assume w: "py_split message = ''proxy-dsa'' # a # sg # c # others"
    and a: "parse_account_id E a = Inr acct"
    and v: "verify_proxy E author (VAccountId acct) (VStr sg) (c @ '' '' @ join '' '' others) server
          = (Inr False, s')"
  have l: "lookup commands_dict ''proxy-dsa'' = Some \<lparr>name = ''proxy-dsa'',
           args = [(''account'', Coerce_parse_account_id, ''Account to proxy''),
                   (''signature'', Coerce_str, ''ECDSA signature of command to run''),
                   (''command'', Coerce_str, ''Command to run'')],
           func = f_proxy_dsa,
           description = ''Proxy another account using ECDSA verification''\<rparr>"
    by (simp only: lookup_commands_dict lookup_proxy_dsa)
  show "run_command E commands_dict author message server
          = (Inr (Text ''Unauthorized proxy''), s',
             [Dispatched author message, Called f_proxy_dsa])"
    unfolding run_command_found [OF w l] parse_proxy_dsa [OF w a]
    using v by (simp add: call_proxy_dsa)
qed

theorem unauthorized_proxy_not_dispatched_witness:
  "run_command demo commands_dict (VStr ''mallory'') ''proxy acct123 balance'' 0
     = (Inr (Text ''Unauthorized proxy''), 1,
        [Dispatched (VStr ''mallory'') ''proxy acct123 balance'', Called f_proxy])
   \<and> run_command demo commands_dict (VStr ''mallory'') ''proxy-dsa acct123 forged balance'' 0
     = (Inr (Text ''Unauthorized proxy''), 1,
        [Dispatched (VStr ''mallory'') ''proxy-dsa acct123 forged balance'', Called f_proxy_dsa])"
proof
  have "py_split ''proxy acct123 balance'' = ''proxy'' # ''acct123'' # ''balance'' # []"
    by (simp add: is_space_def)
  moreover have "parse_account_id demo ''acct123'' = Inr ''acct123''"
    by (simp add: demo_def)
  moreover have "verify_proxy demo (VStr ''mallory'') (VAccountId ''acct123'') VNone
      (''balance'' @ '' '' @ join '' '' []) 0 = (Inr False, 1)"
    by (simp add: demo_def)
  ultimately show "run_command demo commands_dict (VStr ''mallory'') ''proxy acct123 balance'' 0
     = (Inr (Text ''Unauthorized proxy''), 1,
        [Dispatched (VStr ''mallory'') ''proxy acct123 balance'', Called f_proxy])"
    using unauthorized_proxy_not_dispatched
      [where message = "''proxy acct123 balance''" and E = demo and a = "''acct123''"
         and c = "''balance''" and others = "[]" and acct = "''acct123''"
         and author = "VStr ''mallory''" and server = 0 and s' = 1]
    by blast
next
  have "py_split ''proxy-dsa acct123 forged balance''
      = ''proxy-dsa'' # ''acct123'' # ''forged'' # ''balance'' # []"
    by (simp add: is_space_def)
  moreover have "parse_account_id demo ''acct123'' = Inr ''acct123''"
    by (simp add: demo_def)
  moreover have "verify_proxy demo (VStr ''mallory'') (VAccountId ''acct123'') (VStr ''forged'')
      (''balance'' @ '' '' @ join '' '' []) 0 = (Inr False, 1)"
    by (simp add: demo_def)
  ultimately show
    "run_command demo commands_dict (VStr ''mallory'') ''proxy-dsa acct123 forged balance'' 0
     = (Inr (Text ''Unauthorized proxy''), 1,
        [Dispatched (VStr ''mallory'') ''proxy-dsa acct123 forged balance'', Called f_proxy_dsa])"
    using unauthorized_proxy_not_dispatched
      [where message = "''proxy-dsa acct123 forged balance''" and E = demo and a = "''acct123''"
         and c = "''balance''" and others = "[]" and acct = "''acct123''" and sg = "''forged''"
         and author = "VStr ''mallory''" and server = 0 and s' = 1]
    by blast
qed

end
